theory Spec2Isabelle
  imports Main
begin

section \<open>The Twilio gateway: data\<close>

text \<open>
  The gateway (\<^verbatim>\<open>src/app.py\<close>) has two webhook handlers, \<^verbatim>\<open>whatsapp_webhook\<close> and
  \<^verbatim>\<open>sms_webhook\<close>. Each parses the form of the inbound request, builds a payload,
  posts it once to the backend when \<^verbatim>\<open>LOCAL_BACKEND_URL\<close> is set, and answers with
  TwiML. Everything the handlers do beyond returning a value is explicit here:
  \<^item> an exception is a value of \<open>error\<close>, and a computation that may raise returns
    \<open>error + 'a\<close> (\<open>Inl\<close> is the raise);
  \<^item> the calls of \<^verbatim>\<open>logger\<close> and the request handed to \<^verbatim>\<open>httpx\<close> are collected in
    a record of effects, threaded through the handler;
  \<^item> what the world does is an input: the result of \<^verbatim>\<open>await request.form()\<close>, the
    value of \<^verbatim>\<open>LOCAL_BACKEND_URL\<close>, and the outcome of the outbound call.

  A HOL \<open>string\<close> is a list of 8-bit characters: it stands for bytes, and for text
  given by its UTF-8 encoding. The text of a log line is outside the model; a log line
  is kept as the call of \<^verbatim>\<open>logger\<close> with its arguments.
\<close>

subsection \<open>Values\<close>

text \<open>
  A Python \<^verbatim>\<open>str\<close> may hold a lone surrogate (the JSON text \<^verbatim>\<open>"\ud800"\<close> decodes to
  such a \<^verbatim>\<open>str\<close>), which UTF-8 cannot encode. The handlers do three things with a
  \<^verbatim>\<open>str\<close> of the backend: they test its truth value, put it into an f-string, and
  hand the result to \<^verbatim>\<open>PlainTextResponse\<close>, which encodes it. For these a
  \<^verbatim>\<open>str\<close> is either text without a lone surrogate, given by its UTF-8 encoding,
  or a \<^verbatim>\<open>str\<close> with a lone surrogate, which is never empty.
\<close>

datatype pystr = Encodable string | LoneSurrogate

text \<open>
  A form field is a string or, in a multipart form, an uploaded file. An
  \<^verbatim>\<open>UploadFile\<close> object is truthy and is not JSON serializable. The text of a form
  field is text without a lone surrogate, as decoding the bytes of a request in UTF-8
  gives it.
\<close>

datatype form_value = Text string | UploadFile

type_synonym form_data = "string \<rightharpoonup> form_value"

text \<open>
  A decoded JSON value. \<open>JString s\<close> is a string without a lone surrogate, with the
  UTF-8 encoding \<open>s\<close>; \<open>JSurrogate\<close> is a string that holds a lone surrogate. Numbers,
  arrays and objects are kept abstract: \<open>JOther t r\<close> is such a value with truth value
  \<open>t\<close> and rendering \<open>r\<close> under Python's \<^verbatim>\<open>str\<close> (which writes a surrogate inside
  an array or an object as an escape, so \<open>r\<close> has none).
\<close>

datatype json = JString string | JSurrogate | JNull | JBool bool | JOther bool string

text \<open>
  The exceptions of the program. All of them are subclasses of Python's
  \<^verbatim>\<open>Exception\<close>, the class the handlers catch.
\<close>

datatype error =
    HTTPException nat string \<comment> \<open>\<^verbatim>\<open>fastapi.HTTPException(status_code, detail)\<close>\<close>
  | FormError \<comment> \<open>\<^verbatim>\<open>request.form()\<close> could not parse the body\<close>
  | TypeError \<comment> \<open>the payload is not JSON serializable\<close>
  | TimeoutException \<comment> \<open>\<^verbatim>\<open>httpx.TimeoutException\<close>: no answer within the timeout\<close>
  | TransportError \<comment> \<open>any other \<^verbatim>\<open>httpx\<close> failure: unreachable, bad URL, protocol\<close>
  | JSONDecodeError \<comment> \<open>\<^verbatim>\<open>response.json()\<close> on a body that is not JSON\<close>
  | AttributeError \<comment> \<open>\<^verbatim>\<open>.get\<close> on a decoded body that is not a dict\<close>
  | UnicodeEncodeError \<comment> \<open>\<^verbatim>\<open>PlainTextResponse\<close> on a content with a lone surrogate\<close>

text \<open>The result of \<^verbatim>\<open>await request.form()\<close>: the form, or a raise.\<close>

type_synonym request = "error + form_data"

text \<open>The body of the backend's answer, as \<^verbatim>\<open>response.json()\<close> sees it.\<close>

datatype reply_body =
    NotJson
  | JsonObject "string \<rightharpoonup> json"
  | JsonOther \<comment> \<open>valid JSON that does not decode to a dict\<close>

text \<open>
  What the outbound call does once the request is sent: it raises, or it returns a
  response with a status code and a body.
\<close>

datatype call_outcome = Raises error | Returns int reply_body

record outbound_call =
  url :: string
  json_body :: "(string \<times> json) list"
  timeout :: nat

record response =
  status_code :: nat
  media_type :: string
  content :: string

datatype level = INFO | ERROR

datatype log_msg =
    MessageFrom string form_value \<comment> \<open>\<^verbatim>\<open>"<channel> message from {sender}"\<close>\<close>
  | ForwardedToBackend int \<comment> \<open>\<^verbatim>\<open>"Forwarded to backend: {response.status_code}"\<close>\<close>
  | WebhookError string error \<comment> \<open>\<^verbatim>\<open>"<channel> webhook error: {e}"\<close>\<close>

record effects =
  logged :: "(level \<times> log_msg) list"
  calls :: "outbound_call list"

section \<open>The library calls the handlers make\<close>

definition no_effects :: effects where
  "no_effects = \<lparr>logged = [], calls = []\<rparr>"

definition logger_info :: "log_msg \<Rightarrow> effects \<Rightarrow> effects" where
  "logger_info m s = s\<lparr>logged := logged s @ [(INFO, m)]\<rparr>"

definition logger_error :: "log_msg \<Rightarrow> effects \<Rightarrow> effects" where
  "logger_error m s = s\<lparr>logged := logged s @ [(ERROR, m)]\<rparr>"

text \<open>\<^verbatim>\<open>form_data.get(key, default)\<close>.\<close>

definition form_get :: "form_data \<Rightarrow> string \<Rightarrow> form_value \<Rightarrow> form_value" where
  "form_get form_data k d = (case form_data k of None \<Rightarrow> d | Some v \<Rightarrow> v)"

text \<open>Python's truth value of a form field, of a JSON value and of the backend URL.\<close>

fun truthy :: "form_value \<Rightarrow> bool" where
  "truthy (Text s) = (s \<noteq> [])"
| "truthy UploadFile = True"

fun json_truthy :: "json \<Rightarrow> bool" where
  "json_truthy (JString s) = (s \<noteq> [])"
| "json_truthy JSurrogate = True"
| "json_truthy JNull = False"
| "json_truthy (JBool b) = b"
| "json_truthy (JOther t r) = t"

fun url_truthy :: "string option \<Rightarrow> bool" where
  "url_truthy None = False"
| "url_truthy (Some u) = (u \<noteq> [])"

text \<open>
  The text an f-string puts for \<^verbatim>\<open>{reply_message}\<close> and for
  \<^verbatim>\<open>{LOCAL_BACKEND_URL}\<close>: Python's \<^verbatim>\<open>str\<close>.
\<close>

fun url_str :: "string option \<Rightarrow> string" where
  "url_str None = ''None''"
| "url_str (Some u) = u"

fun json_str :: "json \<Rightarrow> pystr" where
  "json_str (JString s) = Encodable s"
| "json_str JSurrogate = LoneSurrogate"
| "json_str JNull = Encodable ''None''"
| "json_str (JBool b) = Encodable (if b then ''True'' else ''False'')"
| "json_str (JOther t r) = Encodable r"

text \<open>
  The JSON encoding of the payload that \<^verbatim>\<open>client.post(..., json=payload)\<close> does before
  anything is sent. A payload value is a form field or \<^verbatim>\<open>None\<close>.
\<close>

fun encode_value :: "form_value option \<Rightarrow> error + json" where
  "encode_value None = Inr JNull"
| "encode_value (Some (Text s)) = Inr (JString s)"
| "encode_value (Some UploadFile) = Inl TypeError"

fun json_dumps :: "(string \<times> form_value option) list \<Rightarrow> error + (string \<times> json) list" where
  "json_dumps [] = Inr []"
| "json_dumps ((k, v) # kvs) =
     (case encode_value v of
        Inl e \<Rightarrow> Inl e
      | Inr j \<Rightarrow> (case json_dumps kvs of Inl e \<Rightarrow> Inl e | Inr r \<Rightarrow> Inr ((k, j) # r)))"

text \<open>
  \<^verbatim>\<open>async with httpx.AsyncClient(timeout=30.0) as client: await client.post(u, json=payload)\<close>.
  The call is recorded once the payload is encoded; its outcome is the world's.
\<close>

definition client_post ::
  "string \<Rightarrow> (string \<times> form_value option) list \<Rightarrow> call_outcome \<Rightarrow> effects
     \<Rightarrow> (error + int \<times> reply_body) \<times> effects" where
  "client_post u payload backend s =
     (case json_dumps payload of
        Inl e \<Rightarrow> (Inl e, s)
      | Inr envelope \<Rightarrow>
          (let s' = s\<lparr>calls := calls s @ [\<lparr>url = u, json_body = envelope, timeout = 30\<rparr>]\<rparr>
           in case backend of
                Raises e \<Rightarrow> (Inl e, s')
              | Returns st b \<Rightarrow> (Inr (st, b), s')))"

text \<open>\<^verbatim>\<open>response.json()\<close> followed by \<^verbatim>\<open>backend_data.get("response", "")\<close>.\<close>

fun reply_message_of :: "reply_body \<Rightarrow> error + json" where
  "reply_message_of NotJson = Inl JSONDecodeError"
| "reply_message_of JsonOther = Inl AttributeError"
| "reply_message_of (JsonObject backend_data) =
     Inr (case backend_data ''response'' of None \<Rightarrow> JString [] | Some v \<Rightarrow> v)"

text \<open>
  \<^verbatim>\<open>PlainTextResponse(content=..., media_type=...)\<close>. The constructor encodes the
  content to the bytes of the body, in UTF-8, and raises \<^verbatim>\<open>UnicodeEncodeError\<close> when
  the content has a lone surrogate. Its default status code is 200.
\<close>

fun PlainTextResponse :: "pystr \<Rightarrow> string \<Rightarrow> error + response" where
  "PlainTextResponse (Encodable c) m = Inr \<lparr>status_code = 200, media_type = m, content = c\<rparr>"
| "PlainTextResponse LoneSurrogate m = Inl UnicodeEncodeError"

text \<open>
  The two contents the handlers send: the literal of the acknowledgment, and the two
  adjacent f-strings around \<^verbatim>\<open>{reply_message}\<close>.
\<close>

definition empty_twiml :: string where
  \<open>empty_twiml = ''<?xml version="1.0" encoding="UTF-8"?><Response></Response>''\<close>

fun message_twiml :: "pystr \<Rightarrow> pystr" where
  \<open>message_twiml (Encodable reply_message) =
     Encodable (''<?xml version="1.0" encoding="UTF-8"?>'' @
                ''<Response><Message>'' @ reply_message @ ''</Message></Response>'')\<close>
| \<open>message_twiml LoneSurrogate = LoneSurrogate\<close>

text \<open>
  The statement that ends both the \<^verbatim>\<open>try\<close> block and the \<^verbatim>\<open>except\<close> clause, the
  return of \<^verbatim>\<open>PlainTextResponse\<close> on the literal of the acknowledgment.
\<close>

definition acknowledgment :: "error + response" where
  "acknowledgment = PlainTextResponse (Encodable empty_twiml) ''application/xml''"

section \<open>The handlers\<close>

text \<open>
  The part of both handlers from \<^verbatim>\<open>if LOCAL_BACKEND_URL:\<close> to the acknowledgment, which
  is the same text in the two functions of the source.
\<close>

definition forward ::
  "string option \<Rightarrow> (string \<times> form_value option) list \<Rightarrow> call_outcome \<Rightarrow> effects
     \<Rightarrow> (error + response) \<times> effects" where
  "forward LOCAL_BACKEND_URL payload backend s =
     (if url_truthy LOCAL_BACKEND_URL then
        (case client_post (url_str LOCAL_BACKEND_URL @ ''/api/messages/ingest'') payload backend s of
           (Inl e, s') \<Rightarrow> (Inl e, s')
         | (Inr (st, b), s') \<Rightarrow>
             (let s'' = logger_info (ForwardedToBackend st) s'
              in if st = 200 then
                   (case reply_message_of b of
                      Inl e \<Rightarrow> (Inl e, s'')
                    | Inr reply_message \<Rightarrow>
                        if json_truthy reply_message
                        then (PlainTextResponse (message_twiml (json_str reply_message))
                                ''application/xml'', s'')
                        else (acknowledgment, s''))
                 else (acknowledgment, s'')))
      else (acknowledgment, s))"

text \<open>The body of the \<^verbatim>\<open>try\<close> block of \<^verbatim>\<open>whatsapp_webhook\<close>.\<close>

definition whatsapp_try ::
  "string option \<Rightarrow> call_outcome \<Rightarrow> request \<Rightarrow> (error + response) \<times> effects" where
  "whatsapp_try LOCAL_BACKEND_URL backend request =
     (case request of
        Inl e \<Rightarrow> (Inl e, no_effects)
      | Inr form_data \<Rightarrow>
          (let sender = form_get form_data ''From'' (Text []);
               body = form_get form_data ''Body'' (Text []);
               media_url = form_data ''MediaUrl0'';
               s = logger_info (MessageFrom ''WhatsApp'' sender) no_effects
           in if \<not> truthy sender then (Inl (HTTPException 400 ''Missing sender''), s)
              else
                (let payload =
                       [(''sender'', Some sender),
                        (''content'', Some (if truthy body then body else Text [])),
                        (''channel'', Some (Text ''whatsapp'')),
                        (''media_url'', media_url)]
                 in forward LOCAL_BACKEND_URL payload backend s)))"

text \<open>\<^verbatim>\<open>whatsapp_webhook\<close>: the \<^verbatim>\<open>try\<close> block under \<^verbatim>\<open>except Exception as e\<close>.\<close>

definition whatsapp_webhook ::
  "string option \<Rightarrow> call_outcome \<Rightarrow> request \<Rightarrow> (error + response) \<times> effects" where
  "whatsapp_webhook LOCAL_BACKEND_URL backend request =
     (case whatsapp_try LOCAL_BACKEND_URL backend request of
        (Inr r, s) \<Rightarrow> (Inr r, s)
      | (Inl e, s) \<Rightarrow> (acknowledgment, logger_error (WebhookError ''WhatsApp'' e) s))"

text \<open>The body of the \<^verbatim>\<open>try\<close> block of \<^verbatim>\<open>sms_webhook\<close>.\<close>

definition sms_try ::
  "string option \<Rightarrow> call_outcome \<Rightarrow> request \<Rightarrow> (error + response) \<times> effects" where
  "sms_try LOCAL_BACKEND_URL backend request =
     (case request of
        Inl e \<Rightarrow> (Inl e, no_effects)
      | Inr form_data \<Rightarrow>
          (let sender = form_get form_data ''From'' (Text []);
               body = form_get form_data ''Body'' (Text []);
               s = logger_info (MessageFrom ''SMS'' sender) no_effects
           in if \<not> truthy sender then (Inl (HTTPException 400 ''Missing sender''), s)
              else
                (let payload =
                       [(''sender'', Some sender),
                        (''content'', Some (if truthy body then body else Text [])),
                        (''channel'', Some (Text ''sms''))]
                 in forward LOCAL_BACKEND_URL payload backend s)))"

text \<open>\<^verbatim>\<open>sms_webhook\<close>: the \<^verbatim>\<open>try\<close> block under \<^verbatim>\<open>except Exception as e\<close>.\<close>

definition sms_webhook ::
  "string option \<Rightarrow> call_outcome \<Rightarrow> request \<Rightarrow> (error + response) \<times> effects" where
  "sms_webhook LOCAL_BACKEND_URL backend request =
     (case sms_try LOCAL_BACKEND_URL backend request of
        (Inr r, s) \<Rightarrow> (Inr r, s)
      | (Inl e, s) \<Rightarrow> (acknowledgment, logger_error (WebhookError ''SMS'' e) s))"

section \<open>Auxiliary definitions and facts\<close>

text \<open>The response that the acknowledgment returns.\<close>

definition acknowledge :: response where
  "acknowledge = \<lparr>status_code = 200, media_type = ''application/xml'', content = empty_twiml\<rparr>"

text \<open>The effects after the outbound request with the given envelope has been handed over.\<close>

definition sent :: "string option \<Rightarrow> (string \<times> json) list \<Rightarrow> effects \<Rightarrow> effects" where
  "sent U envelope s =
     s\<lparr>calls := calls s @
          [\<lparr>url = url_str U @ ''/api/messages/ingest'', json_body = envelope, timeout = 30\<rparr>]\<rparr>"

text \<open>The \<^verbatim>\<open>except\<close> clause of a handler, applied to the result of its \<^verbatim>\<open>try\<close> block.\<close>

definition handled :: "string \<Rightarrow> (error + response) \<times> effects \<Rightarrow> (error + response) \<times> effects" where
  "handled ch x =
     (case x of
        (Inr r, s) \<Rightarrow> (Inr r, s)
      | (Inl e, s) \<Rightarrow> (Inr acknowledge, logger_error (WebhookError ch e) s))"

text \<open>The payloads of the two handlers for a sender \<open>v\<close>, and the effects after the first log line.\<close>

definition content_of :: "form_data \<Rightarrow> form_value" where
  "content_of form_data =
     (if truthy (form_get form_data ''Body'' (Text []))
      then form_get form_data ''Body'' (Text []) else Text [])"

definition whatsapp_payload :: "form_value \<Rightarrow> form_data \<Rightarrow> (string \<times> form_value option) list" where
  "whatsapp_payload v form_data =
     [(''sender'', Some v), (''content'', Some (content_of form_data)),
      (''channel'', Some (Text ''whatsapp'')), (''media_url'', form_data ''MediaUrl0'')]"

definition sms_payload :: "form_value \<Rightarrow> form_data \<Rightarrow> (string \<times> form_value option) list" where
  "sms_payload v form_data =
     [(''sender'', Some v), (''content'', Some (content_of form_data)),
      (''channel'', Some (Text ''sms''))]"

definition received :: "string \<Rightarrow> form_value \<Rightarrow> effects" where
  "received ch v = logger_info (MessageFrom ch v) no_effects"

text \<open>The status codes that HTTP calls successful: the class 2xx.\<close>

definition is_success :: "int \<Rightarrow> bool" where
  "is_success st = (200 \<le> st \<and> st < 300)"

text \<open>
  A log entry that reports a failure of the outbound call: the error line of the
  \<^verbatim>\<open>except\<close> clause, or the line of the forwarding result with a status other than 200.
\<close>

definition reports_failure :: "level \<times> log_msg \<Rightarrow> bool" where
  "reports_failure entry =
     (case snd entry of
        MessageFrom ch sender \<Rightarrow> False
      | ForwardedToBackend st \<Rightarrow> st \<noteq> 200
      | WebhookError ch e \<Rightarrow> True)"

subsection \<open>The forwarding step, case by case\<close>

lemma acknowledgment_Inr: "acknowledgment = Inr acknowledge"
  by (simp add: acknowledgment_def acknowledge_def)

lemma PlainTextResponse_Inr:
  "PlainTextResponse c m = Inr r \<Longrightarrow> status_code r = 200 \<and> media_type r = m"
  by (cases c) auto

lemma forward_unset: "\<not> url_truthy U \<Longrightarrow> forward U p B s = (Inr acknowledge, s)"
  by (simp add: forward_def acknowledgment_Inr)

lemma forward_unencodable:
  "url_truthy U \<Longrightarrow> json_dumps p = Inl e \<Longrightarrow> forward U p B s = (Inl e, s)"
  by (simp add: forward_def client_post_def)

lemma forward_raises:
  "url_truthy U \<Longrightarrow> json_dumps p = Inr envelope \<Longrightarrow>
   forward U p (Raises e) s = (Inl e, sent U envelope s)"
  by (simp add: forward_def client_post_def sent_def)

lemma forward_returns:
  "url_truthy U \<Longrightarrow> json_dumps p = Inr envelope \<Longrightarrow>
   forward U p (Returns st b) s =
     (if st = 200 then
        (case reply_message_of b of
           Inl e \<Rightarrow> (Inl e, logger_info (ForwardedToBackend st) (sent U envelope s))
         | Inr reply_message \<Rightarrow>
             if json_truthy reply_message
             then (PlainTextResponse (message_twiml (json_str reply_message))
                     ''application/xml'',
                   logger_info (ForwardedToBackend st) (sent U envelope s))
             else (Inr acknowledge, logger_info (ForwardedToBackend st) (sent U envelope s)))
      else (Inr acknowledge, logger_info (ForwardedToBackend st) (sent U envelope s)))"
  by (simp add: forward_def client_post_def sent_def Let_def acknowledgment_Inr
      split: sum.splits)

lemma forward_response:
  "fst (forward U p B s) = Inr r \<Longrightarrow>
   status_code r = 200 \<and> media_type r = ''application/xml''"
  by (auto simp: forward_def client_post_def Let_def acknowledgment_Inr acknowledge_def
      dest: PlainTextResponse_Inr
      split: sum.splits prod.splits call_outcome.splits if_splits)

lemma forward_calls:
  "calls (snd (forward U p B s)) =
     (if url_truthy U then
        (case json_dumps p of
           Inl e \<Rightarrow> calls s
         | Inr envelope \<Rightarrow> calls (sent U envelope s))
      else calls s)"
  by (auto simp: forward_def client_post_def Let_def sent_def logger_info_def
      split: sum.splits prod.splits call_outcome.splits if_splits)

lemma forward_called:
  "calls s = [] \<Longrightarrow> calls (snd (forward U p B s)) \<noteq> [] \<Longrightarrow>
   url_truthy U \<and> (\<exists>envelope. json_dumps p = Inr envelope)"
  by (simp add: forward_calls split: if_splits sum.splits)

subsection \<open>The handlers as the forwarding step under the except clause\<close>

lemma whatsapp_webhook_handled:
  "whatsapp_webhook U B R = handled ''WhatsApp'' (whatsapp_try U B R)"
  by (simp add: whatsapp_webhook_def handled_def acknowledgment_Inr split: prod.splits sum.splits)

lemma sms_webhook_handled:
  "sms_webhook U B R = handled ''SMS'' (sms_try U B R)"
  by (simp add: sms_webhook_def handled_def acknowledgment_Inr split: prod.splits sum.splits)

lemma whatsapp_try_sender:
  "form_data ''From'' = Some v \<Longrightarrow> truthy v \<Longrightarrow>
   whatsapp_try U B (Inr form_data) =
     forward U (whatsapp_payload v form_data) B (received ''WhatsApp'' v)"
  by (simp add: whatsapp_try_def form_get_def Let_def whatsapp_payload_def content_of_def
      received_def)

lemma sms_try_sender:
  "form_data ''From'' = Some v \<Longrightarrow> truthy v \<Longrightarrow>
   sms_try U B (Inr form_data) =
     forward U (sms_payload v form_data) B (received ''SMS'' v)"
  by (simp add: sms_try_def form_get_def Let_def sms_payload_def content_of_def received_def)

lemma whatsapp_try_no_sender:
  "form_data ''From'' = None \<or> form_data ''From'' = Some (Text []) \<Longrightarrow>
   whatsapp_try U B (Inr form_data) =
     (Inl (HTTPException 400 ''Missing sender''), received ''WhatsApp'' (Text []))"
  by (auto simp: whatsapp_try_def form_get_def Let_def received_def)

lemma sms_try_no_sender:
  "form_data ''From'' = None \<or> form_data ''From'' = Some (Text []) \<Longrightarrow>
   sms_try U B (Inr form_data) =
     (Inl (HTTPException 400 ''Missing sender''), received ''SMS'' (Text []))"
  by (auto simp: sms_try_def form_get_def Let_def received_def)

lemma handled_returns: "\<exists>r. fst (handled ch x) = Inr r"
  by (cases x) (simp add: handled_def split: sum.splits)

lemma handled_calls: "calls (snd (handled ch x)) = calls (snd x)"
  by (cases x) (simp add: handled_def logger_error_def split: sum.splits)

lemma handled_Inr: "handled ch (Inr r, s) = (Inr r, s)"
  by (simp add: handled_def)

lemma handled_Inl:
  "handled ch (Inl e, s) = (Inr acknowledge, logger_error (WebhookError ch e) s)"
  by (simp add: handled_def)

lemma received_simps:
  "calls (received ch v) = []" "logged (received ch v) = [(INFO, MessageFrom ch v)]"
  by (simp_all add: received_def logger_info_def no_effects_def)

lemma acknowledge_simps:
  "status_code acknowledge = 200" "media_type acknowledge = ''application/xml''"
  "content acknowledge = empty_twiml"
  by (simp_all add: acknowledge_def)

lemma handled_forward_response:
  "\<exists>r. fst (handled ch (forward U p B s)) = Inr r \<and>
       status_code r = 200 \<and> media_type r = ''application/xml''"
proof (cases "forward U p B s")
  case (Pair x s')
  show ?thesis
  proof (cases x)
    case (Inl e)
    with Pair show ?thesis
      by (simp add: handled_Inl acknowledge_simps)
  next
    case (Inr r)
    with Pair have "fst (forward U p B s) = Inr r"
      by simp
    from forward_response [OF this] Pair Inr show ?thesis
      by (simp add: handled_Inr)
  qed
qed

subsection \<open>Outcomes of the forwarding step under the except clause\<close>

lemma whatsapp_webhook_sender:
  "form_data ''From'' = Some v \<Longrightarrow> truthy v \<Longrightarrow>
   whatsapp_webhook U B (Inr form_data) =
     handled ''WhatsApp'' (forward U (whatsapp_payload v form_data) B (received ''WhatsApp'' v))"
  by (simp add: whatsapp_webhook_handled whatsapp_try_sender)

lemma sms_webhook_sender:
  "form_data ''From'' = Some v \<Longrightarrow> truthy v \<Longrightarrow>
   sms_webhook U B (Inr form_data) =
     handled ''SMS'' (forward U (sms_payload v form_data) B (received ''SMS'' v))"
  by (simp add: sms_webhook_handled sms_try_sender)

lemma handled_forward_reply:
  assumes "url_truthy U" and "json_dumps p = Inr envelope"
    and "backend_data ''response'' = Some (JString T)" and "T \<noteq> []"
  shows "handled ch (forward U p (Returns 200 (JsonObject backend_data)) s) =
           (PlainTextResponse (message_twiml (Encodable T)) ''application/xml'',
            logger_info (ForwardedToBackend 200) (sent U envelope s))"
  using assms by (simp add: forward_returns handled_Inr)

lemma handled_forward_surrogate:
  assumes "url_truthy U" and "json_dumps p = Inr envelope"
    and "backend_data ''response'' = Some JSurrogate"
  shows "handled ch (forward U p (Returns 200 (JsonObject backend_data)) s) =
           (Inr acknowledge,
            logger_error (WebhookError ch UnicodeEncodeError)
              (logger_info (ForwardedToBackend 200) (sent U envelope s)))"
  using assms by (simp add: forward_returns handled_Inl)

lemma handled_forward_no_reply:
  assumes "backend_data ''response'' = None \<or> backend_data ''response'' = Some (JString [])"
  shows "fst (handled ch (forward U p (Returns 200 (JsonObject backend_data)) s)) = Inr acknowledge"
proof (cases "url_truthy U")
  case False
  then show ?thesis
    by (simp add: forward_unset handled_Inr)
next
  case True
  show ?thesis
  proof (cases "json_dumps p")
    case (Inl e)
    with True show ?thesis
      by (simp add: forward_unencodable handled_Inl)
  next
    case (Inr envelope)
    with True assms show ?thesis
      by (auto simp: forward_returns handled_Inr)
  qed
qed

lemma handled_forward_raises:
  "url_truthy U \<Longrightarrow> json_dumps p = Inr envelope \<Longrightarrow>
   handled ch (forward U p (Raises e) s) =
     (Inr acknowledge, logger_error (WebhookError ch e) (sent U envelope s))"
  by (simp add: forward_raises handled_Inl)

lemma handled_forward_status:
  "url_truthy U \<Longrightarrow> json_dumps p = Inr envelope \<Longrightarrow> st \<noteq> 200 \<Longrightarrow>
   handled ch (forward U p (Returns st b) s) =
     (Inr acknowledge, logger_info (ForwardedToBackend st) (sent U envelope s))"
  by (simp add: forward_returns handled_Inr)

lemma logged_simps:
  "logged (logger_info m s) = logged s @ [(INFO, m)]"
  "logged (logger_error m s) = logged s @ [(ERROR, m)]"
  "logged (sent U envelope s) = logged s"
  by (simp_all add: logger_info_def logger_error_def sent_def)

lemma handled_forward_failure:
  assumes "calls s = []" and "calls (snd (handled ch (forward U p B s))) \<noteq> []"
    and "B = Raises TimeoutException \<or> B = Returns 500 b"
  shows "fst (handled ch (forward U p B s)) = Inr acknowledge \<and>
         logged (snd (handled ch (forward U p B s))) =
           logged s @ [case B of Raises e \<Rightarrow> (ERROR, WebhookError ch e)
                              | Returns st b' \<Rightarrow> (INFO, ForwardedToBackend st)]"
proof -
  from assms(1,2) forward_called [of s U p B]
  have "url_truthy U \<and> (\<exists>envelope. json_dumps p = Inr envelope)"
    by (simp add: handled_calls)
  then obtain envelope where U: "url_truthy U" and p: "json_dumps p = Inr envelope"
    by blast
  from assms(3) show ?thesis
  proof
    assume "B = Raises TimeoutException"
    then show ?thesis
      by (simp add: handled_forward_raises [OF U p] logged_simps)
  next
    assume "B = Returns 500 b"
    then show ?thesis
      by (simp add: handled_forward_status [OF U p] logged_simps)
  qed
qed

lemma calls_simps:
  "calls (logger_info m s) = calls s"
  "calls (logger_error m s) = calls s"
  "calls (sent U envelope s) = calls s @
     [\<lparr>url = url_str U @ ''/api/messages/ingest'', json_body = envelope, timeout = 30\<rparr>]"
  by (simp_all add: logger_info_def logger_error_def sent_def)

subsection \<open>The envelope of a call that is made\<close>

lemma encode_value_Inr:
  "encode_value x = Inr j \<Longrightarrow>
   (x = None \<and> j = JNull) \<or> (\<exists>s. x = Some (Text s) \<and> j = JString s)"
  by (cases x rule: encode_value.cases) auto

lemma content_of_encoded:
  "encode_value (Some (content_of form_data)) = Inr j \<Longrightarrow>
   j = JString (case form_data ''Body'' of Some (Text b) \<Rightarrow> b | _ \<Rightarrow> [])"
  by (auto simp: content_of_def form_get_def split: option.splits form_value.splits if_splits)

lemma whatsapp_envelope:
  "json_dumps (whatsapp_payload v form_data) = Inr envelope \<Longrightarrow>
   \<exists>js jc jm. encode_value (Some (content_of form_data)) = Inr jc \<and>
      encode_value (form_data ''MediaUrl0'') = Inr jm \<and>
      envelope = [(''sender'', js), (''content'', jc),
                  (''channel'', JString ''whatsapp''), (''media_url'', jm)]"
  by (auto simp: whatsapp_payload_def split: sum.splits)

lemma sms_envelope:
  "json_dumps (sms_payload v form_data) = Inr envelope \<Longrightarrow>
   \<exists>js jc. encode_value (Some (content_of form_data)) = Inr jc \<and>
      envelope = [(''sender'', js), (''content'', jc), (''channel'', JString ''sms'')]"
  by (auto simp: sms_payload_def split: sum.splits)

lemma forward_call_envelope:
  "calls s = [] \<Longrightarrow> c \<in> set (calls (snd (forward U p B s))) \<Longrightarrow>
   json_dumps p = Inr (json_body c)"
  by (auto simp: forward_calls sent_def split: if_splits sum.splits)

lemma whatsapp_try_cases:
  "whatsapp_try U B (Inr form_data) =
     (if truthy (form_get form_data ''From'' (Text []))
      then forward U (whatsapp_payload (form_get form_data ''From'' (Text [])) form_data) B
             (received ''WhatsApp'' (form_get form_data ''From'' (Text [])))
      else (Inl (HTTPException 400 ''Missing sender''),
            received ''WhatsApp'' (form_get form_data ''From'' (Text []))))"
  by (simp add: whatsapp_try_def Let_def whatsapp_payload_def content_of_def received_def)

lemma sms_try_cases:
  "sms_try U B (Inr form_data) =
     (if truthy (form_get form_data ''From'' (Text []))
      then forward U (sms_payload (form_get form_data ''From'' (Text [])) form_data) B
             (received ''SMS'' (form_get form_data ''From'' (Text [])))
      else (Inl (HTTPException 400 ''Missing sender''),
            received ''SMS'' (form_get form_data ''From'' (Text []))))"
  by (simp add: sms_try_def Let_def sms_payload_def content_of_def received_def)

lemma whatsapp_try_calls:
  assumes "c \<in> set (calls (snd (whatsapp_try U B (Inr form_data))))"
  shows "json_dumps (whatsapp_payload (form_get form_data ''From'' (Text [])) form_data)
           = Inr (json_body c)"
proof (cases "truthy (form_get form_data ''From'' (Text []))")
  case True
  with assms have "c \<in> set (calls (snd (forward U
      (whatsapp_payload (form_get form_data ''From'' (Text [])) form_data) B
      (received ''WhatsApp'' (form_get form_data ''From'' (Text []))))))"
    by (simp add: whatsapp_try_cases)
  from forward_call_envelope [OF _ this] show ?thesis
    by (simp add: received_simps)
next
  case False
  with assms show ?thesis
    by (simp add: whatsapp_try_cases received_simps)
qed

lemma sms_try_calls:
  assumes "c \<in> set (calls (snd (sms_try U B (Inr form_data))))"
  shows "json_dumps (sms_payload (form_get form_data ''From'' (Text [])) form_data)
           = Inr (json_body c)"
proof (cases "truthy (form_get form_data ''From'' (Text []))")
  case True
  with assms have "c \<in> set (calls (snd (forward U
      (sms_payload (form_get form_data ''From'' (Text [])) form_data) B
      (received ''SMS'' (form_get form_data ''From'' (Text []))))))"
    by (simp add: sms_try_cases)
  from forward_call_envelope [OF _ this] show ?thesis
    by (simp add: received_simps)
next
  case False
  with assms show ?thesis
    by (simp add: sms_try_cases received_simps)
qed

text \<open>The rules that run a handler on a concrete request.\<close>

lemmas run_simps =
  whatsapp_webhook_handled sms_webhook_handled whatsapp_try_cases sms_try_cases
  form_get_def whatsapp_payload_def sms_payload_def content_of_def
  forward_calls forward_unset forward_raises forward_returns handled_calls handled_Inr handled_Inl
  received_simps logged_simps acknowledge_simps empty_twiml_def calls_simps

section \<open>The claims\<close>

text \<open>
  In the statements below, \<open>fst (h U backend request)\<close> is what handler \<open>h\<close> returns
  (\<open>Inr\<close> a response, \<open>Inl\<close> an exception that leaves the handler) and
  \<open>snd (h U backend request)\<close> its effects; \<open>map_sum id content\<close> reads the body of the
  response. A request with a non-empty sender is \<open>Inr form_data\<close> with
  \<open>form_data ''From'' = Some v\<close> and \<open>truthy v\<close>. An outbound call is made when the
  list of calls of the handler is not empty.
\<close>

text \<open>
  \<^bold>\<open>C1.\<close> For every request whose form has a non-empty \<^verbatim>\<open>From\<close> field, on either
  route, the handler returns a response with status 200 and media type
  \<^verbatim>\<open>application/xml\<close>, whatever the backend URL is and whatever the outbound call does.
\<close>

theorem webhook_status_200_xml:
  assumes "form_data ''From'' = Some v" and "truthy v"
  shows "(\<exists>r. fst (whatsapp_webhook U backend (Inr form_data)) = Inr r \<and>
              status_code r = 200 \<and> media_type r = ''application/xml'') \<and>
         (\<exists>r. fst (sms_webhook U backend (Inr form_data)) = Inr r \<and>
              status_code r = 200 \<and> media_type r = ''application/xml'')"
  using assms
  by (simp add: whatsapp_webhook_sender sms_webhook_sender handled_forward_response)

theorem webhook_status_200_xml_witness:
  "[''From'' \<mapsto> Text ''+15550001''] ''From'' = Some (Text ''+15550001'') \<and>
   truthy (Text ''+15550001'') \<and>
   (\<exists>r. fst (whatsapp_webhook (Some ''http://backend'') (Raises TimeoutException)
               (Inr [''From'' \<mapsto> Text ''+15550001''])) = Inr r \<and>
        status_code r = 200 \<and> media_type r = ''application/xml'') \<and>
   (\<exists>r. fst (sms_webhook (Some ''http://backend'') (Raises TimeoutException)
               (Inr [''From'' \<mapsto> Text ''+15550001''])) = Inr r \<and>
        status_code r = 200 \<and> media_type r = ''application/xml'')"
proof -
  have a: "[''From'' \<mapsto> Text ''+15550001''] ''From'' = Some (Text ''+15550001'')"
    by simp
  have b: "truthy (Text ''+15550001'')"
    by simp
  from webhook_status_200_xml [of "[''From'' \<mapsto> Text ''+15550001'']" "Text ''+15550001''", OF a b] a b
  show ?thesis
    by blast
qed

text \<open>
  \<^bold>\<open>C2\<close>, as stated: refuted at two requests, on both of which the outbound call
  is made. On the first the backend answers 201, a success status, with
  \<^verbatim>\<open>{"response": "Hello"}\<close>: the handler tests the status against 200 and sends the
  empty acknowledgment, not the message. On the second the backend answers 200 with
  \<^verbatim>\<open>{"response": "\ud800"}\<close>, a non-empty string with a lone surrogate:
  \<^verbatim>\<open>PlainTextResponse\<close> raises \<^verbatim>\<open>UnicodeEncodeError\<close> inside the \<^verbatim>\<open>try\<close> block, the
  \<^verbatim>\<open>except\<close> clause logs it, and the handler sends the empty acknowledgment.
\<close>

theorem reply_not_rendered_counterexample:
  \<open>is_success 201 \<and>
   calls (snd (whatsapp_webhook (Some ''http://backend'')
                 (Returns 201 (JsonObject [''response'' \<mapsto> JString ''Hello'']))
                 (Inr [''From'' \<mapsto> Text ''+15550001'']))) \<noteq> [] \<and>
   map_sum id content
     (fst (whatsapp_webhook (Some ''http://backend'')
            (Returns 201 (JsonObject [''response'' \<mapsto> JString ''Hello'']))
            (Inr [''From'' \<mapsto> Text ''+15550001''])))
     = Inr ''<?xml version="1.0" encoding="UTF-8"?><Response></Response>'' \<and>
   map_sum id content
     (fst (whatsapp_webhook (Some ''http://backend'')
            (Returns 201 (JsonObject [''response'' \<mapsto> JString ''Hello'']))
            (Inr [''From'' \<mapsto> Text ''+15550001''])))
     \<noteq> Inr ''<?xml version="1.0" encoding="UTF-8"?><Response><Message>Hello</Message></Response>'' \<and>
   is_success 200 \<and> json_truthy JSurrogate \<and>
   calls (snd (whatsapp_webhook (Some ''http://backend'')
                 (Returns 200 (JsonObject [''response'' \<mapsto> JSurrogate]))
                 (Inr [''From'' \<mapsto> Text ''+15550001'']))) \<noteq> [] \<and>
   map_sum id content
     (fst (whatsapp_webhook (Some ''http://backend'')
            (Returns 200 (JsonObject [''response'' \<mapsto> JSurrogate]))
            (Inr [''From'' \<mapsto> Text ''+15550001''])))
     = Inr ''<?xml version="1.0" encoding="UTF-8"?><Response></Response>'' \<and>
   logged (snd (whatsapp_webhook (Some ''http://backend'')
                  (Returns 200 (JsonObject [''response'' \<mapsto> JSurrogate]))
                  (Inr [''From'' \<mapsto> Text ''+15550001''])))
     = [(INFO, MessageFrom ''WhatsApp'' (Text ''+15550001'')),
        (INFO, ForwardedToBackend 200),
        (ERROR, WebhookError ''WhatsApp'' UnicodeEncodeError)]\<close>
  by (simp add: is_success_def run_simps)

text \<open>
  \<^bold>\<open>C2\<close>, amended: for every request with a non-empty sender, if the outbound call
  is made and returns status 200 with a JSON object whose \<^verbatim>\<open>response\<close> field is a
  non-empty string \<open>T\<close> without a lone surrogate (\<open>JString T\<close>, the strings that UTF-8
  can encode), the body of the handler's response is the message markup with \<open>T\<close>
  between the \<^verbatim>\<open>Message\<close> tags, unchanged.
\<close>

theorem reply_rendered_on_status_200:
  assumes "form_data ''From'' = Some v" and "truthy v"
    and "backend = Returns 200 (JsonObject backend_data)"
    and "backend_data ''response'' = Some (JString T)" and "T \<noteq> []"
  shows \<open>(calls (snd (whatsapp_webhook U backend (Inr form_data))) \<noteq> [] \<longrightarrow>
            map_sum id content (fst (whatsapp_webhook U backend (Inr form_data)))
              = Inr (''<?xml version="1.0" encoding="UTF-8"?><Response><Message>'' @ T @ ''</Message></Response>'')) \<and>
         (calls (snd (sms_webhook U backend (Inr form_data))) \<noteq> [] \<longrightarrow>
            map_sum id content (fst (sms_webhook U backend (Inr form_data)))
              = Inr (''<?xml version="1.0" encoding="UTF-8"?><Response><Message>'' @ T @ ''</Message></Response>''))\<close>
proof -
  have *: \<open>map_sum id content (fst (handled ch (forward U p backend (received ch' v))))
             = Inr (''<?xml version="1.0" encoding="UTF-8"?><Response><Message>'' @ T @ ''</Message></Response>'')\<close>
    if "calls (snd (handled ch (forward U p backend (received ch' v)))) \<noteq> []" for ch ch' p
  proof -
    from that forward_called [of "received ch' v" U p backend]
    have "url_truthy U \<and> (\<exists>envelope. json_dumps p = Inr envelope)"
      by (simp add: handled_calls received_simps)
    then obtain envelope where "url_truthy U" and "json_dumps p = Inr envelope"
      by blast
    with assms(3,4,5) show ?thesis
      by (simp add: handled_forward_reply)
  qed
  show ?thesis
    unfolding whatsapp_webhook_sender [of form_data v, OF assms(1,2)]
      sms_webhook_sender [of form_data v, OF assms(1,2)]
    using * [of "''WhatsApp''" "whatsapp_payload v form_data" "''WhatsApp''"]
      * [of "''SMS''" "sms_payload v form_data" "''SMS''"]
    by blast
qed

theorem reply_rendered_on_status_200_witness:
  \<open>calls (snd (whatsapp_webhook (Some ''http://backend'')
                 (Returns 200 (JsonObject [''response'' \<mapsto> JString ''Hello'']))
                 (Inr [''From'' \<mapsto> Text ''+15550001'']))) \<noteq> [] \<and>
   calls (snd (sms_webhook (Some ''http://backend'')
                 (Returns 200 (JsonObject [''response'' \<mapsto> JString ''Hello'']))
                 (Inr [''From'' \<mapsto> Text ''+15550001'']))) \<noteq> [] \<and>
   map_sum id content
     (fst (whatsapp_webhook (Some ''http://backend'')
            (Returns 200 (JsonObject [''response'' \<mapsto> JString ''Hello'']))
            (Inr [''From'' \<mapsto> Text ''+15550001''])))
     = Inr ''<?xml version="1.0" encoding="UTF-8"?><Response><Message>Hello</Message></Response>'' \<and>
   map_sum id content
     (fst (sms_webhook (Some ''http://backend'')
            (Returns 200 (JsonObject [''response'' \<mapsto> JString ''Hello'']))
            (Inr [''From'' \<mapsto> Text ''+15550001''])))
     = Inr ''<?xml version="1.0" encoding="UTF-8"?><Response><Message>Hello</Message></Response>''\<close>
proof -
  have a: "[''From'' \<mapsto> Text ''+15550001''] ''From'' = Some (Text ''+15550001'')"
    by simp
  have b: "truthy (Text ''+15550001'')"
    by simp
  have c: "[''response'' \<mapsto> JString ''Hello''] ''response'' = Some (JString ''Hello'')"
    by simp
  have d: "''Hello'' \<noteq> []"
    by simp
  have e: "calls (snd (whatsapp_webhook (Some ''http://backend'')
                 (Returns 200 (JsonObject [''response'' \<mapsto> JString ''Hello'']))
                 (Inr [''From'' \<mapsto> Text ''+15550001'']))) \<noteq> []"
    by (simp add: run_simps)
  have f: "calls (snd (sms_webhook (Some ''http://backend'')
                 (Returns 200 (JsonObject [''response'' \<mapsto> JString ''Hello'']))
                 (Inr [''From'' \<mapsto> Text ''+15550001'']))) \<noteq> []"
    by (simp add: run_simps)
  from reply_rendered_on_status_200 [of "[''From'' \<mapsto> Text ''+15550001'']" "Text ''+15550001''"
      "Returns 200 (JsonObject [''response'' \<mapsto> JString ''Hello''])"
      "[''response'' \<mapsto> JString ''Hello'']" "''Hello''" "Some ''http://backend''",
      OF a b refl c d] e f
  show ?thesis
    by simp
qed

text \<open>
  \<^bold>\<open>C3.\<close> For every request with a non-empty sender, if the outbound call returns
  status 200 with a JSON object whose \<^verbatim>\<open>response\<close> field is the empty string or is
  absent, the body of the handler's response is the empty acknowledgment.
\<close>

theorem empty_reply_acknowledged:
  assumes "form_data ''From'' = Some v" and "truthy v"
    and "backend = Returns 200 (JsonObject backend_data)"
    and "backend_data ''response'' = None \<or> backend_data ''response'' = Some (JString [])"
  shows \<open>map_sum id content (fst (whatsapp_webhook U backend (Inr form_data)))
            = Inr ''<?xml version="1.0" encoding="UTF-8"?><Response></Response>'' \<and>
         map_sum id content (fst (sms_webhook U backend (Inr form_data)))
            = Inr ''<?xml version="1.0" encoding="UTF-8"?><Response></Response>''\<close>
  using assms
  by (simp add: handled_forward_no_reply whatsapp_webhook_handled sms_webhook_handled whatsapp_try_sender sms_try_sender
      acknowledge_simps empty_twiml_def)

theorem empty_reply_acknowledged_witness:
  \<open>[''From'' \<mapsto> Text ''+15550001''] ''From'' = Some (Text ''+15550001'') \<and>
   truthy (Text ''+15550001'') \<and>
   (Map.empty :: string \<rightharpoonup> json) ''response'' = None \<and>
   calls (snd (whatsapp_webhook (Some ''http://backend'') (Returns 200 (JsonObject Map.empty))
                 (Inr [''From'' \<mapsto> Text ''+15550001'']))) \<noteq> [] \<and>
   map_sum id content
     (fst (whatsapp_webhook (Some ''http://backend'') (Returns 200 (JsonObject Map.empty))
            (Inr [''From'' \<mapsto> Text ''+15550001''])))
     = Inr ''<?xml version="1.0" encoding="UTF-8"?><Response></Response>'' \<and>
   map_sum id content
     (fst (sms_webhook (Some ''http://backend'') (Returns 200 (JsonObject Map.empty))
            (Inr [''From'' \<mapsto> Text ''+15550001''])))
     = Inr ''<?xml version="1.0" encoding="UTF-8"?><Response></Response>'' \<and>
   [''response'' \<mapsto> JString []] ''response'' = Some (JString []) \<and>
   map_sum id content
     (fst (whatsapp_webhook (Some ''http://backend'')
            (Returns 200 (JsonObject [''response'' \<mapsto> JString []]))
            (Inr [''From'' \<mapsto> Text ''+15550001''])))
     = Inr ''<?xml version="1.0" encoding="UTF-8"?><Response></Response>'' \<and>
   map_sum id content
     (fst (sms_webhook (Some ''http://backend'')
            (Returns 200 (JsonObject [''response'' \<mapsto> JString []]))
            (Inr [''From'' \<mapsto> Text ''+15550001''])))
     = Inr ''<?xml version="1.0" encoding="UTF-8"?><Response></Response>''\<close>
proof -
  have a: "[''From'' \<mapsto> Text ''+15550001''] ''From'' = Some (Text ''+15550001'')"
    by simp
  have b: "truthy (Text ''+15550001'')"
    by simp
  have c: "(Map.empty :: string \<rightharpoonup> json) ''response'' = None \<or>
           (Map.empty :: string \<rightharpoonup> json) ''response'' = Some (JString [])"
    by simp
  have d: "[''response'' \<mapsto> JString []] ''response'' = None \<or>
           [''response'' \<mapsto> JString []] ''response'' = Some (JString [])"
    by simp
  have e: "calls (snd (whatsapp_webhook (Some ''http://backend'')
                    (Returns 200 (JsonObject Map.empty))
                    (Inr [''From'' \<mapsto> Text ''+15550001'']))) \<noteq> []"
    by (simp add: run_simps)
  from empty_reply_acknowledged [of "[''From'' \<mapsto> Text ''+15550001'']" "Text ''+15550001''"
      "Returns 200 (JsonObject Map.empty)" Map.empty "Some ''http://backend''", OF a b refl c]
    empty_reply_acknowledged [of "[''From'' \<mapsto> Text ''+15550001'']" "Text ''+15550001''"
      "Returns 200 (JsonObject [''response'' \<mapsto> JString []])"
      "[''response'' \<mapsto> JString []]" "Some ''http://backend''", OF a b refl d]
    a b e
  show ?thesis
    by simp
qed

text \<open>
  \<^bold>\<open>C4.\<close> For every request with a non-empty sender, if the outbound call is made
  and times out or returns status 500, the body of the handler's response is the empty
  acknowledgment and the failure is logged exactly once: after the line of receipt the
  log has one more line, the error line of the \<^verbatim>\<open>except\<close> clause for the timeout and
  the line \<^verbatim>\<open>Forwarded to backend: 500\<close> (at level INFO) for the status, and that line
  is the only one of the log that reports a failure.
\<close>

theorem downstream_failure_logged_once:
  assumes "form_data ''From'' = Some v" and "truthy v"
    and "backend = Raises TimeoutException \<or> backend = Returns 500 b"
  shows \<open>(calls (snd (whatsapp_webhook U backend (Inr form_data))) \<noteq> [] \<longrightarrow>
            map_sum id content (fst (whatsapp_webhook U backend (Inr form_data)))
              = Inr ''<?xml version="1.0" encoding="UTF-8"?><Response></Response>'' \<and>
            logged (snd (whatsapp_webhook U backend (Inr form_data)))
              = [(INFO, MessageFrom ''WhatsApp'' v),
                 (case backend of
                    Raises e \<Rightarrow> (ERROR, WebhookError ''WhatsApp'' e)
                  | Returns st b' \<Rightarrow> (INFO, ForwardedToBackend st))] \<and>
            length (filter reports_failure
                     (logged (snd (whatsapp_webhook U backend (Inr form_data))))) = 1) \<and>
         (calls (snd (sms_webhook U backend (Inr form_data))) \<noteq> [] \<longrightarrow>
            map_sum id content (fst (sms_webhook U backend (Inr form_data)))
              = Inr ''<?xml version="1.0" encoding="UTF-8"?><Response></Response>'' \<and>
            logged (snd (sms_webhook U backend (Inr form_data)))
              = [(INFO, MessageFrom ''SMS'' v),
                 (case backend of
                    Raises e \<Rightarrow> (ERROR, WebhookError ''SMS'' e)
                  | Returns st b' \<Rightarrow> (INFO, ForwardedToBackend st))] \<and>
            length (filter reports_failure
                     (logged (snd (sms_webhook U backend (Inr form_data))))) = 1)\<close>
proof -
  have *: \<open>map_sum id content (fst (handled ch (forward U p backend (received ch v))))
              = Inr ''<?xml version="1.0" encoding="UTF-8"?><Response></Response>'' \<and>
           logged (snd (handled ch (forward U p backend (received ch v))))
              = [(INFO, MessageFrom ch v),
                 (case backend of
                    Raises e \<Rightarrow> (ERROR, WebhookError ch e)
                  | Returns st b' \<Rightarrow> (INFO, ForwardedToBackend st))] \<and>
            length (filter reports_failure
                     (logged (snd (handled ch (forward U p backend (received ch v)))))) = 1\<close>
    if "calls (snd (handled ch (forward U p backend (received ch v)))) \<noteq> []" for ch p
  proof -
    have "calls (received ch v) = []"
      by (simp add: received_simps)
    from handled_forward_failure [OF this that assms(3)] assms(3) show ?thesis
      by (auto simp: received_simps acknowledge_simps empty_twiml_def reports_failure_def)
  qed
  show ?thesis
    unfolding whatsapp_webhook_sender [of form_data v, OF assms(1,2)]
      sms_webhook_sender [of form_data v, OF assms(1,2)]
    using * [of "''WhatsApp''" "whatsapp_payload v form_data"]
      * [of "''SMS''" "sms_payload v form_data"]
    by blast
qed

theorem downstream_failure_logged_once_witness:
  \<open>calls (snd (whatsapp_webhook (Some ''http://backend'') (Raises TimeoutException)
                 (Inr [''From'' \<mapsto> Text ''+15550001'']))) \<noteq> [] \<and>
   calls (snd (sms_webhook (Some ''http://backend'') (Raises TimeoutException)
                 (Inr [''From'' \<mapsto> Text ''+15550001'']))) \<noteq> [] \<and>
   calls (snd (whatsapp_webhook (Some ''http://backend'') (Returns 500 NotJson)
                 (Inr [''From'' \<mapsto> Text ''+15550001'']))) \<noteq> [] \<and>
   calls (snd (sms_webhook (Some ''http://backend'') (Returns 500 NotJson)
                 (Inr [''From'' \<mapsto> Text ''+15550001'']))) \<noteq> [] \<and>
   map_sum id content
     (fst (whatsapp_webhook (Some ''http://backend'') (Raises TimeoutException)
            (Inr [''From'' \<mapsto> Text ''+15550001''])))
     = Inr ''<?xml version="1.0" encoding="UTF-8"?><Response></Response>'' \<and>
   logged (snd (whatsapp_webhook (Some ''http://backend'') (Raises TimeoutException)
                  (Inr [''From'' \<mapsto> Text ''+15550001''])))
     = [(INFO, MessageFrom ''WhatsApp'' (Text ''+15550001'')),
        (ERROR, WebhookError ''WhatsApp'' TimeoutException)] \<and>
   length (filter reports_failure
     (logged (snd (whatsapp_webhook (Some ''http://backend'') (Raises TimeoutException)
                     (Inr [''From'' \<mapsto> Text ''+15550001'']))))) = 1 \<and>
   map_sum id content
     (fst (sms_webhook (Some ''http://backend'') (Returns 500 NotJson)
            (Inr [''From'' \<mapsto> Text ''+15550001''])))
     = Inr ''<?xml version="1.0" encoding="UTF-8"?><Response></Response>'' \<and>
   logged (snd (sms_webhook (Some ''http://backend'') (Returns 500 NotJson)
                  (Inr [''From'' \<mapsto> Text ''+15550001''])))
     = [(INFO, MessageFrom ''SMS'' (Text ''+15550001'')),
        (INFO, ForwardedToBackend 500)] \<and>
   length (filter reports_failure
     (logged (snd (sms_webhook (Some ''http://backend'') (Returns 500 NotJson)
                     (Inr [''From'' \<mapsto> Text ''+15550001'']))))) = 1\<close>
proof -
  have a: "[''From'' \<mapsto> Text ''+15550001''] ''From'' = Some (Text ''+15550001'')"
    by simp
  have b: "truthy (Text ''+15550001'')"
    by simp
  have t: "Raises TimeoutException = Raises TimeoutException \<or>
           Raises TimeoutException = Returns 500 NotJson"
    by simp
  have s: "Returns 500 NotJson = Raises TimeoutException \<or>
           Returns 500 NotJson = Returns 500 NotJson"
    by simp
  have c1: "calls (snd (whatsapp_webhook (Some ''http://backend'') (Raises TimeoutException)
                 (Inr [''From'' \<mapsto> Text ''+15550001'']))) \<noteq> []"
    by (simp add: run_simps)
  have c2: "calls (snd (sms_webhook (Some ''http://backend'') (Raises TimeoutException)
                 (Inr [''From'' \<mapsto> Text ''+15550001'']))) \<noteq> []"
    by (simp add: run_simps)
  have c3: "calls (snd (whatsapp_webhook (Some ''http://backend'') (Returns 500 NotJson)
                 (Inr [''From'' \<mapsto> Text ''+15550001'']))) \<noteq> []"
    by (simp add: run_simps)
  have c4: "calls (snd (sms_webhook (Some ''http://backend'') (Returns 500 NotJson)
                 (Inr [''From'' \<mapsto> Text ''+15550001'']))) \<noteq> []"
    by (simp add: run_simps)
  from downstream_failure_logged_once [of "[''From'' \<mapsto> Text ''+15550001'']"
      "Text ''+15550001''" "Raises TimeoutException" NotJson "Some ''http://backend''", OF a b t]
    downstream_failure_logged_once [of "[''From'' \<mapsto> Text ''+15550001'']"
      "Text ''+15550001''" "Returns 500 NotJson" NotJson "Some ''http://backend''", OF a b s]
    c1 c2 c3 c4
  show ?thesis
    by (simp add: reports_failure_def)
qed

text \<open>
  \<^bold>\<open>C5.\<close> For every request with a non-empty sender, if \<^verbatim>\<open>LOCAL_BACKEND_URL\<close> is not
  set (or is the empty string), the handler makes no outbound call and the body of its
  response is the empty acknowledgment.
\<close>

theorem unset_backend_no_call:
  assumes "form_data ''From'' = Some v" and "truthy v"
    and "U = None \<or> U = Some []"
  shows \<open>calls (snd (whatsapp_webhook U backend (Inr form_data))) = [] \<and>
         map_sum id content (fst (whatsapp_webhook U backend (Inr form_data)))
            = Inr ''<?xml version="1.0" encoding="UTF-8"?><Response></Response>'' \<and>
         calls (snd (sms_webhook U backend (Inr form_data))) = [] \<and>
         map_sum id content (fst (sms_webhook U backend (Inr form_data)))
            = Inr ''<?xml version="1.0" encoding="UTF-8"?><Response></Response>''\<close>
proof -
  from assms(3) have "\<not> url_truthy U"
    by auto
  with assms(1,2) show ?thesis
    by (simp add: whatsapp_webhook_handled sms_webhook_handled whatsapp_try_sender sms_try_sender
        forward_unset handled_Inr received_simps acknowledge_simps empty_twiml_def)
qed

theorem unset_backend_no_call_witness:
  \<open>[''From'' \<mapsto> Text ''+15550001''] ''From'' = Some (Text ''+15550001'') \<and>
   truthy (Text ''+15550001'') \<and>
   calls (snd (whatsapp_webhook None (Returns 200 (JsonObject [''response'' \<mapsto> JString ''Hello'']))
                 (Inr [''From'' \<mapsto> Text ''+15550001'']))) = [] \<and>
   map_sum id content
     (fst (whatsapp_webhook None (Returns 200 (JsonObject [''response'' \<mapsto> JString ''Hello'']))
            (Inr [''From'' \<mapsto> Text ''+15550001''])))
     = Inr ''<?xml version="1.0" encoding="UTF-8"?><Response></Response>'' \<and>
   calls (snd (sms_webhook None (Returns 200 (JsonObject [''response'' \<mapsto> JString ''Hello'']))
                 (Inr [''From'' \<mapsto> Text ''+15550001'']))) = [] \<and>
   map_sum id content
     (fst (sms_webhook None (Returns 200 (JsonObject [''response'' \<mapsto> JString ''Hello'']))
            (Inr [''From'' \<mapsto> Text ''+15550001''])))
     = Inr ''<?xml version="1.0" encoding="UTF-8"?><Response></Response>''\<close>
proof -
  have a: "[''From'' \<mapsto> Text ''+15550001''] ''From'' = Some (Text ''+15550001'')"
    by simp
  have b: "truthy (Text ''+15550001'')"
    by simp
  have c: "(None :: string option) = None \<or> (None :: string option) = Some []"
    by simp
  from unset_backend_no_call [of "[''From'' \<mapsto> Text ''+15550001'']" "Text ''+15550001''" None
      "Returns 200 (JsonObject [''response'' \<mapsto> JString ''Hello''])", OF a b c] a b
  show ?thesis
    by blast
qed

text \<open>
  \<^bold>\<open>C6.\<close> The claim asks for a client error (4xx) when \<^verbatim>\<open>From\<close> is absent. The
  request below has no \<^verbatim>\<open>From\<close> field: the \<^verbatim>\<open>try\<close> block of each handler raises
  \<^verbatim>\<open>HTTPException(status_code=400, detail="Missing sender")\<close>, the \<^verbatim>\<open>except\<close> clause of
  the same handler catches it, and the response has status 200.
\<close>

theorem missing_sender_status_200:
  "fst (whatsapp_try (Some ''http://backend'') (Returns 200 (JsonObject Map.empty))
         (Inr [''Body'' \<mapsto> Text ''hi'']))
     = Inl (HTTPException 400 ''Missing sender'') \<and>
   map_sum id status_code
     (fst (whatsapp_webhook (Some ''http://backend'') (Returns 200 (JsonObject Map.empty))
            (Inr [''Body'' \<mapsto> Text ''hi''])))
     = Inr 200 \<and>
   fst (sms_try (Some ''http://backend'') (Returns 200 (JsonObject Map.empty))
         (Inr [''Body'' \<mapsto> Text ''hi'']))
     = Inl (HTTPException 400 ''Missing sender'') \<and>
   map_sum id status_code
     (fst (sms_webhook (Some ''http://backend'') (Returns 200 (JsonObject Map.empty))
            (Inr [''Body'' \<mapsto> Text ''hi''])))
     = Inr 200"
  by (simp add: run_simps)

text \<open>
  \<^bold>\<open>C7.\<close> For every request whose form has no \<^verbatim>\<open>From\<close> field or an empty one, the
  handler returns a response (no exception leaves it) whose body is the empty
  acknowledgment.
\<close>

theorem missing_sender_acknowledged:
  assumes "form_data ''From'' = None \<or> form_data ''From'' = Some (Text [])"
  shows \<open>map_sum id content (fst (whatsapp_webhook U backend (Inr form_data)))
            = Inr ''<?xml version="1.0" encoding="UTF-8"?><Response></Response>'' \<and>
         map_sum id content (fst (sms_webhook U backend (Inr form_data)))
            = Inr ''<?xml version="1.0" encoding="UTF-8"?><Response></Response>''\<close>
  using assms
  by (simp add: whatsapp_webhook_handled sms_webhook_handled
      whatsapp_try_no_sender sms_try_no_sender handled_Inl acknowledge_simps empty_twiml_def)

theorem missing_sender_acknowledged_witness:
  \<open>[''Body'' \<mapsto> Text ''hi''] ''From'' = None \<and>
   map_sum id content
     (fst (whatsapp_webhook (Some ''http://backend'') (Raises TransportError)
            (Inr [''Body'' \<mapsto> Text ''hi''])))
     = Inr ''<?xml version="1.0" encoding="UTF-8"?><Response></Response>'' \<and>
   map_sum id content
     (fst (sms_webhook (Some ''http://backend'') (Raises TransportError)
            (Inr [''Body'' \<mapsto> Text ''hi''])))
     = Inr ''<?xml version="1.0" encoding="UTF-8"?><Response></Response>'' \<and>
   [''From'' \<mapsto> Text []] ''From'' = Some (Text []) \<and>
   map_sum id content
     (fst (whatsapp_webhook (Some ''http://backend'') (Raises TransportError)
            (Inr [''From'' \<mapsto> Text []])))
     = Inr ''<?xml version="1.0" encoding="UTF-8"?><Response></Response>'' \<and>
   map_sum id content
     (fst (sms_webhook (Some ''http://backend'') (Raises TransportError)
            (Inr [''From'' \<mapsto> Text []])))
     = Inr ''<?xml version="1.0" encoding="UTF-8"?><Response></Response>''\<close>
proof -
  have a: "[''Body'' \<mapsto> Text ''hi''] ''From'' = None \<or>
           [''Body'' \<mapsto> Text ''hi''] ''From'' = Some (Text [])"
    by simp
  have b: "[''From'' \<mapsto> Text []] ''From'' = None \<or>
           [''From'' \<mapsto> Text []] ''From'' = Some (Text [])"
    by simp
  from missing_sender_acknowledged [of "[''Body'' \<mapsto> Text ''hi'']"
      "Some ''http://backend''" "Raises TransportError", OF a]
    missing_sender_acknowledged [of "[''From'' \<mapsto> Text []]"
      "Some ''http://backend''" "Raises TransportError", OF b]
  show ?thesis
    by simp
qed

text \<open>
  \<^bold>\<open>C8.\<close> For every request with a non-empty sender, every outbound call of the
  WhatsApp handler carries the channel \<^verbatim>\<open>"whatsapp"\<close> and every outbound call of the
  SMS handler the channel \<^verbatim>\<open>"sms"\<close>, whatever the fields of the form are.
\<close>

theorem channel_fixed_per_route:
  assumes "form_data ''From'' = Some v" and "truthy v"
  shows "(\<forall>c \<in> set (calls (snd (whatsapp_webhook U backend (Inr form_data)))).
            map_of (json_body c) ''channel'' = Some (JString ''whatsapp'')) \<and>
         (\<forall>c \<in> set (calls (snd (sms_webhook U backend (Inr form_data)))).
            map_of (json_body c) ''channel'' = Some (JString ''sms''))"
proof (intro conjI ballI)
  fix c
  assume "c \<in> set (calls (snd (whatsapp_webhook U backend (Inr form_data))))"
  then have "c \<in> set (calls (snd (whatsapp_try U backend (Inr form_data))))"
    by (simp add: whatsapp_webhook_handled handled_calls)
  from whatsapp_envelope [OF whatsapp_try_calls [OF this]]
  show "map_of (json_body c) ''channel'' = Some (JString ''whatsapp'')"
    by auto
next
  fix c
  assume "c \<in> set (calls (snd (sms_webhook U backend (Inr form_data))))"
  then have "c \<in> set (calls (snd (sms_try U backend (Inr form_data))))"
    by (simp add: sms_webhook_handled handled_calls)
  from sms_envelope [OF sms_try_calls [OF this]]
  show "map_of (json_body c) ''channel'' = Some (JString ''sms'')"
    by auto
qed

theorem channel_fixed_per_route_witness:
  "calls (snd (whatsapp_webhook (Some ''http://backend'') (Raises TransportError)
          (Inr [''From'' \<mapsto> Text ''+15550001'', ''channel'' \<mapsto> Text ''sms'']))) \<noteq> [] \<and>
   calls (snd (sms_webhook (Some ''http://backend'') (Raises TransportError)
          (Inr [''From'' \<mapsto> Text ''+15550001'', ''channel'' \<mapsto> Text ''whatsapp'']))) \<noteq> [] \<and>
   map_of (json_body (hd (calls (snd (whatsapp_webhook (Some ''http://backend'')
          (Raises TransportError)
          (Inr [''From'' \<mapsto> Text ''+15550001'', ''channel'' \<mapsto> Text ''sms'']))))))
     ''channel'' = Some (JString ''whatsapp'') \<and>
   map_of (json_body (hd (calls (snd (sms_webhook (Some ''http://backend'')
          (Raises TransportError)
          (Inr [''From'' \<mapsto> Text ''+15550001'', ''channel'' \<mapsto> Text ''whatsapp'']))))))
     ''channel'' = Some (JString ''sms'')"
proof -
  have a: "[''From'' \<mapsto> Text ''+15550001'', ''channel'' \<mapsto> Text ''sms''] ''From''
             = Some (Text ''+15550001'')"
    by simp
  have a': "[''From'' \<mapsto> Text ''+15550001'', ''channel'' \<mapsto> Text ''whatsapp''] ''From''
             = Some (Text ''+15550001'')"
    by simp
  have b: "truthy (Text ''+15550001'')"
    by simp
  have w: "calls (snd (whatsapp_webhook (Some ''http://backend'') (Raises TransportError)
          (Inr [''From'' \<mapsto> Text ''+15550001'', ''channel'' \<mapsto> Text ''sms'']))) \<noteq> []"
    by (simp add: run_simps)
  have s: "calls (snd (sms_webhook (Some ''http://backend'') (Raises TransportError)
          (Inr [''From'' \<mapsto> Text ''+15550001'', ''channel'' \<mapsto> Text ''whatsapp'']))) \<noteq> []"
    by (simp add: run_simps)
  from channel_fixed_per_route [of "[''From'' \<mapsto> Text ''+15550001'', ''channel'' \<mapsto> Text ''sms'']"
      "Text ''+15550001''" "Some ''http://backend''" "Raises TransportError", OF a b]
    channel_fixed_per_route [of "[''From'' \<mapsto> Text ''+15550001'', ''channel'' \<mapsto> Text ''whatsapp'']"
      "Text ''+15550001''" "Some ''http://backend''" "Raises TransportError", OF a' b]
    w s hd_in_set [OF w] hd_in_set [OF s]
  show ?thesis
    by blast
qed

text \<open>
  \<^bold>\<open>C9.\<close> For every request (also one whose form cannot be parsed), every value of
  \<^verbatim>\<open>LOCAL_BACKEND_URL\<close> and every outcome of the outbound call (also a raise of any
  exception), each handler returns a response: no exception leaves it.
\<close>

theorem webhook_returns_response:
  "(\<exists>r. fst (whatsapp_webhook U backend request) = Inr r) \<and>
   (\<exists>r. fst (sms_webhook U backend request) = Inr r)"
  by (simp add: whatsapp_webhook_handled sms_webhook_handled handled_returns)

text \<open>
  \<^bold>\<open>C10.\<close> In every outbound call of the SMS handler the envelope has no key
  \<^verbatim>\<open>media_url\<close>. In every outbound call of the WhatsApp handler the envelope has the key
  \<^verbatim>\<open>media_url\<close>, with the value of the form's \<^verbatim>\<open>MediaUrl0\<close> field when the form has
  one and \<^verbatim>\<open>null\<close> otherwise. On both routes the \<^verbatim>\<open>content\<close> of the envelope is the
  form's \<^verbatim>\<open>Body\<close> field when it is present and not empty, and the empty string
  otherwise.
\<close>

theorem envelope_fields:
  "(\<forall>c \<in> set (calls (snd (sms_webhook U backend (Inr form_data)))).
      ''media_url'' \<notin> fst ` set (json_body c) \<and>
      map_of (json_body c) ''content'' =
        Some (JString (case form_data ''Body'' of Some (Text b) \<Rightarrow> b | _ \<Rightarrow> []))) \<and>
   (\<forall>c \<in> set (calls (snd (whatsapp_webhook U backend (Inr form_data)))).
      ''media_url'' \<in> fst ` set (json_body c) \<and>
      (form_data ''MediaUrl0'' = None \<and> map_of (json_body c) ''media_url'' = Some JNull \<or>
       (\<exists>m. form_data ''MediaUrl0'' = Some (Text m) \<and>
            map_of (json_body c) ''media_url'' = Some (JString m))) \<and>
      map_of (json_body c) ''content'' =
        Some (JString (case form_data ''Body'' of Some (Text b) \<Rightarrow> b | _ \<Rightarrow> [])))"
proof (intro conjI ballI)
  fix c
  assume "c \<in> set (calls (snd (sms_webhook U backend (Inr form_data))))"
  then have "c \<in> set (calls (snd (sms_try U backend (Inr form_data))))"
    by (simp add: sms_webhook_handled handled_calls)
  from sms_envelope [OF sms_try_calls [OF this]]
  obtain js jc where jc: "encode_value (Some (content_of form_data)) = Inr jc"
    and c: "json_body c = [(''sender'', js), (''content'', jc), (''channel'', JString ''sms'')]"
    by blast
  from c show "''media_url'' \<notin> fst ` set (json_body c)"
    by simp
  from c content_of_encoded [OF jc]
  show "map_of (json_body c) ''content'' =
          Some (JString (case form_data ''Body'' of Some (Text b) \<Rightarrow> b | _ \<Rightarrow> []))"
    by simp
next
  fix c
  assume "c \<in> set (calls (snd (whatsapp_webhook U backend (Inr form_data))))"
  then have "c \<in> set (calls (snd (whatsapp_try U backend (Inr form_data))))"
    by (simp add: whatsapp_webhook_handled handled_calls)
  from whatsapp_envelope [OF whatsapp_try_calls [OF this]]
  obtain js jc jm where jc: "encode_value (Some (content_of form_data)) = Inr jc"
    and jm: "encode_value (form_data ''MediaUrl0'') = Inr jm"
    and c: "json_body c = [(''sender'', js), (''content'', jc),
                           (''channel'', JString ''whatsapp''), (''media_url'', jm)]"
    by blast
  from c show "''media_url'' \<in> fst ` set (json_body c)"
    by simp
  from c encode_value_Inr [OF jm]
  show "form_data ''MediaUrl0'' = None \<and> map_of (json_body c) ''media_url'' = Some JNull \<or>
        (\<exists>m. form_data ''MediaUrl0'' = Some (Text m) \<and>
             map_of (json_body c) ''media_url'' = Some (JString m))"
    by auto
  from c content_of_encoded [OF jc]
  show "map_of (json_body c) ''content'' =
          Some (JString (case form_data ''Body'' of Some (Text b) \<Rightarrow> b | _ \<Rightarrow> []))"
    by simp
qed

theorem envelope_fields_witness:
  "calls (snd (sms_webhook (Some ''http://backend'') (Raises TransportError)
          (Inr [''From'' \<mapsto> Text ''+15550001'', ''Body'' \<mapsto> Text ''hi'',
                ''MediaUrl0'' \<mapsto> Text ''http://m/1'']))) \<noteq> [] \<and>
   calls (snd (whatsapp_webhook (Some ''http://backend'') (Raises TransportError)
          (Inr [''From'' \<mapsto> Text ''+15550001'', ''Body'' \<mapsto> Text ''hi'',
                ''MediaUrl0'' \<mapsto> Text ''http://m/1'']))) \<noteq> [] \<and>
   ''media_url'' \<notin> fst ` set (json_body (hd (calls (snd (sms_webhook (Some ''http://backend'')
          (Raises TransportError)
          (Inr [''From'' \<mapsto> Text ''+15550001'', ''Body'' \<mapsto> Text ''hi'',
                ''MediaUrl0'' \<mapsto> Text ''http://m/1'']))))))  \<and>
   map_of (json_body (hd (calls (snd (sms_webhook (Some ''http://backend'')
          (Raises TransportError)
          (Inr [''From'' \<mapsto> Text ''+15550001'', ''Body'' \<mapsto> Text ''hi'',
                ''MediaUrl0'' \<mapsto> Text ''http://m/1'']))))))
     ''content'' = Some (JString ''hi'') \<and>
   map_of (json_body (hd (calls (snd (whatsapp_webhook (Some ''http://backend'')
          (Raises TransportError)
          (Inr [''From'' \<mapsto> Text ''+15550001'', ''Body'' \<mapsto> Text ''hi'',
                ''MediaUrl0'' \<mapsto> Text ''http://m/1'']))))))
     ''media_url'' = Some (JString ''http://m/1'') \<and>
   map_of (json_body (hd (calls (snd (whatsapp_webhook (Some ''http://backend'')
          (Raises TransportError)
          (Inr [''From'' \<mapsto> Text ''+15550001'', ''Body'' \<mapsto> Text ''hi'',
                ''MediaUrl0'' \<mapsto> Text ''http://m/1'']))))))
     ''content'' = Some (JString ''hi'')"
proof -
  have s: "calls (snd (sms_webhook (Some ''http://backend'') (Raises TransportError)
          (Inr [''From'' \<mapsto> Text ''+15550001'', ''Body'' \<mapsto> Text ''hi'',
                ''MediaUrl0'' \<mapsto> Text ''http://m/1'']))) \<noteq> []"
    by (simp add: run_simps)
  have w: "calls (snd (whatsapp_webhook (Some ''http://backend'') (Raises TransportError)
          (Inr [''From'' \<mapsto> Text ''+15550001'', ''Body'' \<mapsto> Text ''hi'',
                ''MediaUrl0'' \<mapsto> Text ''http://m/1'']))) \<noteq> []"
    by (simp add: run_simps)
  have m: "[''From'' \<mapsto> Text ''+15550001'', ''Body'' \<mapsto> Text ''hi'',
            ''MediaUrl0'' \<mapsto> Text ''http://m/1''] ''MediaUrl0'' = Some (Text ''http://m/1'')"
    by simp
  have c: "(case [''From'' \<mapsto> Text ''+15550001'', ''Body'' \<mapsto> Text ''hi'',
                  ''MediaUrl0'' \<mapsto> Text ''http://m/1''] ''Body'' of
              Some (Text b) \<Rightarrow> b | _ \<Rightarrow> []) = ''hi''"
    by simp
  from envelope_fields [of "Some ''http://backend''" "Raises TransportError"
      "[''From'' \<mapsto> Text ''+15550001'', ''Body'' \<mapsto> Text ''hi'',
        ''MediaUrl0'' \<mapsto> Text ''http://m/1'']"]
    hd_in_set [OF s] hd_in_set [OF w] s w
  show ?thesis
    unfolding m c by auto
qed

end
